theory Spec2Isabelle
  imports Main
begin

section \<open>JavaScript values used by the connector\<close>

text \<open>
  A thrown \<open>Error\<close> is a value carrying its message; a function that may throw returns
  \<open>js_error + 'a\<close>, with \<open>Inl\<close> for the throw. \<open>TypeError\<close> is the error the runtime
  throws on reading a property of \<open>undefined\<close>; it carries the name of the property. An
  optional string field (\<open>string | undefined\<close>) is a \<open>string option\<close>; JavaScript
  treats both \<open>undefined\<close> and the empty string as false in a condition.
\<close>

datatype js_error = Error string | TypeError string

text \<open>
  Reading \<open>object[key]\<close> on an object literal gives the value of an own key, or the
  member every object inherits from \<open>Object.prototype\<close> when the key is one of its
  names, or \<open>undefined\<close>. An inherited member is a function or an object: it is true
  in a condition and has no properties of the table's entries.
\<close>

datatype 'a js_prop = Undefined | Inherited | Own 'a

definition object_prototype_keys :: "string list" where
  "object_prototype_keys =
     [''constructor'', ''__defineGetter__'', ''__defineSetter__'', ''hasOwnProperty'',
      ''__lookupGetter__'', ''__lookupSetter__'', ''isPrototypeOf'', ''propertyIsEnumerable'',
      ''toString'', ''valueOf'', ''__proto__'', ''toLocaleString'']"

definition truthy :: "string option \<Rightarrow> bool" where
  "truthy v = (case v of None \<Rightarrow> False | Some s \<Rightarrow> s \<noteq> [])"

section \<open>Network registry (src/types)\<close>

record RpcUrls =
  alchemy :: "string option"
  infura :: "string option"
  ankr :: "string option"
  public :: "string option"

record WsUrls =
  ws_alchemy :: "string option"
  ws_infura :: "string option"
  ws_public :: "string option"

record NetworkConfig =
  name :: string
  chainId :: int
  symbol :: string
  explorer :: string
  isTestnet :: bool
  supportsEIP1559 :: bool
  rpcUrls :: RpcUrls
  wsUrls :: "WsUrls option"

definition mk_rpc :: "string option \<Rightarrow> string option \<Rightarrow> string option \<Rightarrow> string option \<Rightarrow> RpcUrls" where
  "mk_rpc a i k p = \<lparr>alchemy = a, infura = i, ankr = k, public = p\<rparr>"

definition mk_net ::
  "string \<Rightarrow> int \<Rightarrow> string \<Rightarrow> string \<Rightarrow> bool \<Rightarrow> bool \<Rightarrow> RpcUrls \<Rightarrow> WsUrls option \<Rightarrow> NetworkConfig" where
  "mk_net n c s e t f r w =
     \<lparr>name = n, chainId = c, symbol = s, explorer = e, isTestnet = t,
      supportsEIP1559 = f, rpcUrls = r, wsUrls = w\<rparr>"

text \<open>The table \<open>NETWORKS\<close>, entry by entry, in the order of the source.\<close>

definition NETWORKS :: "(string \<times> NetworkConfig) list" where
  "NETWORKS =
   [(''mainnet'', mk_net ''Ethereum Mainnet'' 1 ''ETH'' ''https://etherscan.io'' False True
       (mk_rpc (Some ''eth-mainnet.g.alchemy.com/v2'') (Some ''mainnet.infura.io/v3'')
               (Some ''rpc.ankr.com/eth'') (Some ''eth.llamarpc.com''))
       (Some \<lparr>ws_alchemy = Some ''eth-mainnet.g.alchemy.com/v2'',
              ws_infura = Some ''mainnet.infura.io/ws/v3'', ws_public = None\<rparr>)),
    (''sepolia'', mk_net ''Sepolia Testnet'' 11155111 ''ETH'' ''https://sepolia.etherscan.io'' True True
       (mk_rpc (Some ''eth-sepolia.g.alchemy.com/v2'') (Some ''sepolia.infura.io/v3'')
               (Some ''rpc.ankr.com/eth_sepolia'') (Some ''rpc.sepolia.org''))
       (Some \<lparr>ws_alchemy = Some ''eth-sepolia.g.alchemy.com/v2'',
              ws_infura = Some ''sepolia.infura.io/ws/v3'', ws_public = None\<rparr>)),
    (''goerli'', mk_net ''Goerli Testnet (Deprecated)'' 5 ''ETH'' ''https://goerli.etherscan.io'' True True
       (mk_rpc (Some ''eth-goerli.g.alchemy.com/v2'') (Some ''goerli.infura.io/v3'')
               (Some ''rpc.ankr.com/eth_goerli'') (Some ''rpc.goerli.mudit.blog''))
       None),
    (''holesky'', mk_net ''Holesky Testnet'' 17000 ''ETH'' ''https://holesky.etherscan.io'' True True
       (mk_rpc (Some ''eth-holesky.g.alchemy.com/v2'') (Some ''holesky.infura.io/v3'')
               (Some ''rpc.ankr.com/eth_holesky'') (Some ''ethereum-holesky.publicnode.com''))
       None),
    (''polygon'', mk_net ''Polygon Mainnet'' 137 ''MATIC'' ''https://polygonscan.com'' False True
       (mk_rpc (Some ''polygon-mainnet.g.alchemy.com/v2'') (Some ''polygon-mainnet.infura.io/v3'')
               (Some ''rpc.ankr.com/polygon'') (Some ''polygon-rpc.com''))
       None),
    (''polygon-amoy'', mk_net ''Polygon Amoy Testnet'' 80002 ''MATIC'' ''https://amoy.polygonscan.com'' True True
       (mk_rpc (Some ''polygon-amoy.g.alchemy.com/v2'') (Some ''polygon-amoy.infura.io/v3'')
               (Some ''rpc.ankr.com/polygon_amoy'') (Some ''rpc-amoy.polygon.technology''))
       None),
    (''arbitrum'', mk_net ''Arbitrum One'' 42161 ''ETH'' ''https://arbiscan.io'' False True
       (mk_rpc (Some ''arb-mainnet.g.alchemy.com/v2'') (Some ''arbitrum-mainnet.infura.io/v3'')
               (Some ''rpc.ankr.com/arbitrum'') (Some ''arb1.arbitrum.io/rpc''))
       None),
    (''arbitrum-sepolia'', mk_net ''Arbitrum Sepolia'' 421614 ''ETH'' ''https://sepolia.arbiscan.io'' True True
       (mk_rpc (Some ''arb-sepolia.g.alchemy.com/v2'') (Some ''arbitrum-sepolia.infura.io/v3'')
               (Some ''rpc.ankr.com/arbitrum_sepolia'') (Some ''sepolia-rollup.arbitrum.io/rpc''))
       None),
    (''optimism'', mk_net ''Optimism'' 10 ''ETH'' ''https://optimistic.etherscan.io'' False True
       (mk_rpc (Some ''opt-mainnet.g.alchemy.com/v2'') (Some ''optimism-mainnet.infura.io/v3'')
               (Some ''rpc.ankr.com/optimism'') (Some ''mainnet.optimism.io''))
       None),
    (''optimism-sepolia'', mk_net ''Optimism Sepolia'' 11155420 ''ETH'' ''https://sepolia-optimism.etherscan.io'' True True
       (mk_rpc (Some ''opt-sepolia.g.alchemy.com/v2'') (Some ''optimism-sepolia.infura.io/v3'')
               (Some ''rpc.ankr.com/optimism_sepolia'') (Some ''sepolia.optimism.io''))
       None),
    (''base'', mk_net ''Base'' 8453 ''ETH'' ''https://basescan.org'' False True
       (mk_rpc (Some ''base-mainnet.g.alchemy.com/v2'') (Some ''base-mainnet.infura.io/v3'')
               (Some ''rpc.ankr.com/base'') (Some ''mainnet.base.org''))
       None),
    (''base-sepolia'', mk_net ''Base Sepolia'' 84532 ''ETH'' ''https://sepolia.basescan.org'' True True
       (mk_rpc (Some ''base-sepolia.g.alchemy.com/v2'') (Some ''base-sepolia.infura.io/v3'')
               (Some ''rpc.ankr.com/base_sepolia'') (Some ''sepolia.base.org''))
       None),
    (''avalanche'', mk_net ''Avalanche C-Chain'' 43114 ''AVAX'' ''https://snowtrace.io'' False True
       (mk_rpc None (Some ''avalanche-mainnet.infura.io/v3'')
               (Some ''rpc.ankr.com/avalanche'') (Some ''api.avax.network/ext/bc/C/rpc''))
       None),
    (''avalanche-fuji'', mk_net ''Avalanche Fuji'' 43113 ''AVAX'' ''https://testnet.snowtrace.io'' True True
       (mk_rpc None (Some ''avalanche-fuji.infura.io/v3'')
               (Some ''rpc.ankr.com/avalanche_fuji'') (Some ''api.avax-test.network/ext/bc/C/rpc''))
       None),
    (''bsc'', mk_net ''BNB Smart Chain'' 56 ''BNB'' ''https://bscscan.com'' False False
       (mk_rpc None None (Some ''rpc.ankr.com/bsc'') (Some ''bsc-dataseed.binance.org''))
       None),
    (''bsc-testnet'', mk_net ''BNB Smart Chain Testnet'' 97 ''tBNB'' ''https://testnet.bscscan.com'' True False
       (mk_rpc None None (Some ''rpc.ankr.com/bsc_testnet_chapel'')
               (Some ''data-seed-prebsc-1-s1.binance.org:8545''))
       None),
    (''custom'', mk_net ''Custom Network'' 0 ''ETH'' '''' False True
       (mk_rpc None None None None)
       None)]"

text \<open>
  \<open>NETWORKS[network]\<close>: the entry of the table, an inherited member, or \<open>undefined\<close>.
\<close>

definition NETWORKS_get :: "string \<Rightarrow> NetworkConfig js_prop" where
  "NETWORKS_get n =
     (case map_of NETWORKS n of
        Some networkConfig \<Rightarrow> Own networkConfig
      | None \<Rightarrow> if n \<in> set object_prototype_keys then Inherited else Undefined)"

text \<open>
  \<open>networkConfig.rpcUrls[rpcProvider]\<close>: the object has at most the four keys of its
  type; a key the entry leaves out reads \<open>undefined\<close>, as does every other provider name
  that is not an inherited one.
\<close>

definition own_or_undefined :: "string option \<Rightarrow> string js_prop" where
  "own_or_undefined v = (case v of None \<Rightarrow> Undefined | Some s \<Rightarrow> Own s)"

definition rpcUrls_get :: "RpcUrls \<Rightarrow> string \<Rightarrow> string js_prop" where
  "rpcUrls_get u k =
     (if k = ''alchemy'' then own_or_undefined (alchemy u)
      else if k = ''infura'' then own_or_undefined (infura u)
      else if k = ''ankr'' then own_or_undefined (ankr u)
      else if k = ''public'' then own_or_undefined (public u)
      else if k \<in> set object_prototype_keys then Inherited
      else Undefined)"

section \<open>Endpoint resolver (src/transport, buildRpcUrl)\<close>

record EthereumCredentials =
  network :: string
  rpcProvider :: string
  apiKey :: "string option"
  customRpcUrl :: "string option"
  customWsUrl :: "string option"
  customChainId :: "int option"
  walletType :: string
  privateKey :: "string option"
  mnemonic :: "string option"
  derivationPath :: "string option"

text \<open>
  The text a template literal prints for an optional string. It is read only where the
  value has been tested to be present.
\<close>

definition js_str :: "string option \<Rightarrow> string" where
  "js_str v = (case v of None \<Rightarrow> ''undefined'' | Some s \<Rightarrow> s)"

text \<open>
  With an inherited member in place of the network entry, \<open>networkConfig.rpcUrls\<close> is
  \<open>undefined\<close> and reading a key of it throws a \<open>TypeError\<close>. With an inherited member
  in place of the hostname template the switch is reached, and its default case throws,
  since no inherited name is one of the four provider cases.
\<close>

definition buildRpcUrl :: "EthereumCredentials \<Rightarrow> js_error + string" where
  "buildRpcUrl credentials =
     (if rpcProvider credentials = ''custom'' \<or> network credentials = ''custom'' then
        (if \<not> truthy (customRpcUrl credentials)
         then Inl (Error ''Custom RPC URL is required for custom provider/network'')
         else Inr (js_str (customRpcUrl credentials)))
      else
        (case NETWORKS_get (network credentials) of
           Undefined \<Rightarrow> Inl (Error (''Unknown network: '' @ network credentials))
         | Inherited \<Rightarrow>
             if rpcProvider credentials = ''public'' then Inl (TypeError ''public'')
             else if \<not> truthy (apiKey credentials) then
               Inl (Error (''API key is required for '' @ rpcProvider credentials @ '' provider''))
             else Inl (TypeError (rpcProvider credentials))
         | Own networkConfig \<Rightarrow>
             if rpcProvider credentials = ''public'' then
               (if \<not> truthy (public (rpcUrls networkConfig))
                then Inl (Error (''No public RPC available for network: '' @ network credentials))
                else Inr (''https://'' @ js_str (public (rpcUrls networkConfig))))
             else if \<not> truthy (apiKey credentials) then
               Inl (Error (''API key is required for '' @ rpcProvider credentials @ '' provider''))
             else
               (case rpcUrls_get (rpcUrls networkConfig) (rpcProvider credentials) of
                  Undefined \<Rightarrow>
                    Inl (Error (''Provider '' @ rpcProvider credentials
                                @ '' not available for network: '' @ network credentials))
                | Inherited \<Rightarrow>
                    Inl (Error (''Unknown RPC provider: '' @ rpcProvider credentials))
                | Own providerUrl \<Rightarrow>
                    if providerUrl = [] then
                      Inl (Error (''Provider '' @ rpcProvider credentials
                                  @ '' not available for network: '' @ network credentials))
                    else if rpcProvider credentials = ''alchemy'' then
                      Inr (''https://'' @ providerUrl @ ''/'' @ js_str (apiKey credentials))
                    else if rpcProvider credentials = ''infura'' then
                      Inr (''https://'' @ providerUrl @ ''/'' @ js_str (apiKey credentials))
                    else if rpcProvider credentials = ''ankr'' then
                      (if truthy (apiKey credentials)
                       then Inr (''https://'' @ providerUrl @ ''/'' @ js_str (apiKey credentials))
                       else Inr (''https://'' @ providerUrl))
                    else if rpcProvider credentials = ''quicknode'' then
                      (if truthy (customRpcUrl credentials)
                       then Inr (js_str (customRpcUrl credentials))
                       else Inr (''https://'' @ providerUrl @ ''/'' @ js_str (apiKey credentials)))
                    else Inl (Error (''Unknown RPC provider: '' @ rpcProvider credentials)))))"

text \<open>Credentials with the given network, provider, API key and custom RPC URL, and no wallet.\<close>

definition creds :: "string \<Rightarrow> string \<Rightarrow> string option \<Rightarrow> string option \<Rightarrow> EthereumCredentials" where
  "creds n p k u =
     \<lparr>network = n, rpcProvider = p, apiKey = k, customRpcUrl = u, customWsUrl = None,
      customChainId = None, walletType = ''none'', privateKey = None, mnemonic = None,
      derivationPath = None\<rparr>"

section \<open>Strings\<close>

text \<open>
  Strings are byte lists; \<open>toLowerCase\<close> and \<open>toUpperCase\<close> act on the ASCII letters,
  which are the only letters an address has.
\<close>

definition toLowerCase_char :: "char \<Rightarrow> char" where
  "toLowerCase_char c =
     (let n = (of_char c :: nat) in if 65 \<le> n \<and> n \<le> 90 then char_of (n + 32) else c)"

definition toUpperCase_char :: "char \<Rightarrow> char" where
  "toUpperCase_char c =
     (let n = (of_char c :: nat) in if 97 \<le> n \<and> n \<le> 122 then char_of (n - 32) else c)"

definition toLowerCase :: "string \<Rightarrow> string" where
  "toLowerCase s = map toLowerCase_char s"

definition startsWith :: "string \<Rightarrow> string \<Rightarrow> bool" where
  "startsWith s p = (take (length p) s = p)"

section \<open>Poll cursor engine (nodes/Ethereum, EthereumTrigger.poll)\<close>

subsection \<open>Data\<close>

text \<open>
  Block numbers, batch sizes and amounts are integers. \<open>options.batchSize\<close> and
  \<open>options.startBlock\<close> are absent (\<open>None\<close>) when the operator did not set them.
\<close>

record Options =
  opt_batchSize :: "int option"
  opt_startBlock :: "int option"

record TriggerParams =
  event :: string
  options :: Options
  includeBlockDetails :: bool
  includeTransactions :: bool
  contractAddress :: string
  abi :: string
  eventName :: string
  watchAddress :: string
  activityType :: string
  minValue :: string
  tokenAddress :: string
  tokenFilterType :: string
  tokenFilterAddress :: string

record StaticData =
  lastBlock :: "int option"

record Tx =
  tx_hash :: string
  tx_from :: string
  tx_to :: "string option"
  tx_value :: int

record Block =
  block_number :: int
  block_timestamp :: int
  prefetchedTransactions :: "Tx list option"

text \<open>
  A log as \<open>queryFilter\<close> returns it. \<open>log_args\<close> is the decoded argument triple of an
  \<open>EventLog\<close> (from, to, value or token id); a log the library could not decode has none.
\<close>

record Log =
  log_blockNumber :: int
  log_transactionHash :: string
  log_index :: int
  log_topics :: "string list"
  log_data :: string
  log_args :: "(string \<times> string \<times> int) option"

datatype abi_kind = ERC20_ABI | ERC721_TRANSFER_ABI

record TokenTransferJson =
  tt_token_address :: string
  tt_token_name :: string
  tt_token_symbol :: string
  tt_token_decimals :: int
  tt_from :: string
  tt_to :: string
  tt_value :: string
  tt_valueRaw :: int
  tt_blockNumber :: int
  tt_transactionHash :: string
  tt_logIndex :: int

record NftTransferJson =
  nt_contractAddress :: string
  nt_from :: string
  nt_to :: string
  nt_tokenId :: int
  nt_blockNumber :: int
  nt_transactionHash :: string
  nt_logIndex :: int

record ActivityJson =
  act_type :: string
  act_hash :: string
  act_from :: string
  act_to :: "string option"
  act_value :: string
  act_valueWei :: int
  act_blockNumber :: int
  act_timestamp :: int

text \<open>
  One output record of a cycle. \<open>FormattedBlock\<close> and \<open>FormattedEvent\<close> stand for the
  results of \<open>formatBlock\<close> and \<open>formatEvent\<close> (src/utils) on their arguments.
\<close>

datatype out =
    FormattedBlock Block bool
  | BlockStub int int
  | FormattedEvent Log string "(string \<times> string) list"
  | Activity ActivityJson
  | TokenTransfer TokenTransferJson
  | NftTransfer NftTransferJson

text \<open>
  Everything a cycle asks of the host, the client library and the remote node. Each call
  that can throw returns a sum. \<open>checksumAddress\<close> is the helper of src/utils
  (\<open>checksumAddress_utils\<close> below), which throws on an invalid address; \<open>clock\<close> is the wall-clock second read when a block
  number is reached; \<open>quotient\<close> is the printed floating-point quotient of a raw amount by
  a power of ten; \<open>parseMinValue\<close> turns the minimum-value text into wei.
\<close>

record env =
  connection :: "js_error option"
  getBlockNumber :: "js_error + int"
  getBlock :: "int \<Rightarrow> bool \<Rightarrow> js_error + Block option"
  clock :: "int \<Rightarrow> int"
  parseAbi :: "string \<Rightarrow> js_error option"
  eventFilter :: "string \<Rightarrow> string \<Rightarrow> js_error + bool"
  queryEvents :: "string \<Rightarrow> string \<Rightarrow> string \<Rightarrow> int \<Rightarrow> int \<Rightarrow> js_error + Log list"
  parseLog :: "string \<Rightarrow> Log \<Rightarrow> (string \<times> string) list"
  resolveName :: "string \<Rightarrow> js_error + string option"
  parseMinValue :: "string \<Rightarrow> js_error + int"
  queryFilter :: "abi_kind \<Rightarrow> string \<Rightarrow> string option \<Rightarrow> string option \<Rightarrow> int \<Rightarrow> int \<Rightarrow> js_error + Log list"
  tokenInfo :: "string \<Rightarrow> js_error + (string \<times> string \<times> int)"
  checksumAddress :: "string \<Rightarrow> js_error + string"
  quotient :: "int \<Rightarrow> int \<Rightarrow> string"

text \<open>\<open>(x as number) || d\<close>: \<open>d\<close> when \<open>x\<close> is absent or zero.\<close>

definition js_or :: "int option \<Rightarrow> int \<Rightarrow> int" where
  "js_or x d = (case x of None \<Rightarrow> d | Some v \<Rightarrow> if v = 0 then d else v)"

subsection \<open>New block\<close>

fun newBlock_loop :: "env \<Rightarrow> TriggerParams \<Rightarrow> out list \<Rightarrow> int list \<Rightarrow> js_error + out list" where
  "newBlock_loop E p returnData [] = Inr returnData"
| "newBlock_loop E p returnData (blockNum # rest) =
     (if includeBlockDetails p then
        (case getBlock E blockNum (includeTransactions p) of
           Inl e \<Rightarrow> Inl e
         | Inr None \<Rightarrow> newBlock_loop E p returnData rest
         | Inr (Some block) \<Rightarrow>
             newBlock_loop E p (returnData @ [FormattedBlock block (includeTransactions p)]) rest)
      else newBlock_loop E p (returnData @ [BlockStub blockNum (clock E blockNum)]) rest)"

definition newBlock :: "env \<Rightarrow> TriggerParams \<Rightarrow> int \<Rightarrow> int \<Rightarrow> js_error + out list" where
  "newBlock E p fromBlock toBlock = newBlock_loop E p [] [fromBlock..toBlock]"

subsection \<open>Contract event\<close>

definition contractEvent :: "env \<Rightarrow> TriggerParams \<Rightarrow> int \<Rightarrow> int \<Rightarrow> js_error + out list" where
  "contractEvent E p fromBlock toBlock =
     (case parseAbi E (abi p) of
        Some e \<Rightarrow> Inl e
      | None \<Rightarrow>
          (case eventFilter E (abi p) (eventName p) of
             Inl e \<Rightarrow> Inl e
           | Inr False \<Rightarrow> Inl (Error (''Event '' @ eventName p @ '' not found in ABI''))
           | Inr True \<Rightarrow>
               (case queryEvents E (contractAddress p) (abi p) (eventName p) fromBlock toBlock of
                  Inl e \<Rightarrow> Inl e
                | Inr logs \<Rightarrow>
                    Inr (map (\<lambda>log. FormattedEvent log (eventName p) (parseLog E (abi p) log)) logs))))"

subsection \<open>Address activity\<close>

fun activity_txs ::
  "env \<Rightarrow> TriggerParams \<Rightarrow> string \<Rightarrow> int \<Rightarrow> int \<Rightarrow> Block \<Rightarrow> out list \<Rightarrow> Tx list \<Rightarrow> out list" where
  "activity_txs E p normalizedAddress minValueWei blockNum block returnData [] = returnData"
| "activity_txs E p normalizedAddress minValueWei blockNum block returnData (tx # txs) =
     (let isFrom = (toLowerCase (tx_from tx) = normalizedAddress);
          isTo = (case tx_to tx of None \<Rightarrow> False | Some t \<Rightarrow> toLowerCase t = normalizedAddress)
      in if \<not> isFrom \<and> \<not> isTo then
           activity_txs E p normalizedAddress minValueWei blockNum block returnData txs
         else if activityType p = ''incoming'' \<and> \<not> isTo then
           activity_txs E p normalizedAddress minValueWei blockNum block returnData txs
         else if activityType p = ''outgoing'' \<and> \<not> isFrom then
           activity_txs E p normalizedAddress minValueWei blockNum block returnData txs
         else if tx_value tx < minValueWei then
           activity_txs E p normalizedAddress minValueWei blockNum block returnData txs
         else
           activity_txs E p normalizedAddress minValueWei blockNum block
             (returnData @
               [Activity \<lparr>act_type = (if isFrom then ''outgoing'' else ''incoming''),
                          act_hash = tx_hash tx, act_from = tx_from tx, act_to = tx_to tx,
                          act_value = quotient E (tx_value tx) 18, act_valueWei = tx_value tx,
                          act_blockNumber = blockNum, act_timestamp = block_timestamp block\<rparr>])
             txs)"

fun activity_blocks ::
  "env \<Rightarrow> TriggerParams \<Rightarrow> string \<Rightarrow> int \<Rightarrow> out list \<Rightarrow> int list \<Rightarrow> js_error + out list" where
  "activity_blocks E p normalizedAddress minValueWei returnData [] = Inr returnData"
| "activity_blocks E p normalizedAddress minValueWei returnData (blockNum # rest) =
     (case getBlock E blockNum True of
        Inl e \<Rightarrow> Inl e
      | Inr None \<Rightarrow> activity_blocks E p normalizedAddress minValueWei returnData rest
      | Inr (Some block) \<Rightarrow>
          (case prefetchedTransactions block of
             None \<Rightarrow> activity_blocks E p normalizedAddress minValueWei returnData rest
           | Some txs \<Rightarrow>
               activity_blocks E p normalizedAddress minValueWei
                 (activity_txs E p normalizedAddress minValueWei blockNum block returnData txs)
                 rest))"

definition addressActivity :: "env \<Rightarrow> TriggerParams \<Rightarrow> int \<Rightarrow> int \<Rightarrow> js_error + out list" where
  "addressActivity E p fromBlock toBlock =
     (case (if \<not> startsWith (watchAddress p) ''0x'' then
              (case resolveName E (watchAddress p) of
                 Inl e \<Rightarrow> Inl e
               | Inr resolved \<Rightarrow>
                   if \<not> truthy resolved
                   then Inl (Error (''Could not resolve ENS: '' @ watchAddress p))
                   else Inr (js_str resolved))
            else Inr (watchAddress p)) of
        Inl e \<Rightarrow> Inl e
      | Inr resolvedAddress \<Rightarrow>
          (case parseMinValue E (minValue p) of
             Inl e \<Rightarrow> Inl e
           | Inr minValueWei \<Rightarrow>
               activity_blocks E p (toLowerCase resolvedAddress) minValueWei []
                 [fromBlock..toBlock]))"

subsection \<open>Token transfer and NFT transfer\<close>

text \<open>
  The filter handed to \<open>contract.filters.Transfer(fromFilter, toFilter)\<close>: \<open>None\<close> is the
  \<open>null\<close> that leaves an indexed parameter unconstrained.
\<close>

definition fromFilter_of :: "TriggerParams \<Rightarrow> string option" where
  "fromFilter_of p =
     (if tokenFilterAddress p \<noteq> [] \<and> tokenFilterType p = ''from''
      then Some (tokenFilterAddress p) else None)"

definition toFilter_of :: "TriggerParams \<Rightarrow> string option" where
  "toFilter_of p =
     (if tokenFilterAddress p \<noteq> [] \<and> tokenFilterType p \<noteq> ''from'' \<and> tokenFilterType p = ''to''
      then Some (tokenFilterAddress p) else None)"

text \<open>The post-filter for \<open>either\<close>: true when the log is skipped.\<close>

definition either_skips :: "TriggerParams \<Rightarrow> string \<Rightarrow> string \<Rightarrow> bool" where
  "either_skips p from_a to_a =
     (tokenFilterType p = ''either'' \<and> tokenFilterAddress p \<noteq> [] \<and>
      toLowerCase from_a \<noteq> toLowerCase (tokenFilterAddress p) \<and>
      toLowerCase to_a \<noteq> toLowerCase (tokenFilterAddress p))"

definition tokenTransfer_json ::
  "env \<Rightarrow> TriggerParams \<Rightarrow> string \<times> string \<times> int \<Rightarrow> Log \<Rightarrow> string \<Rightarrow> string \<Rightarrow> int
     \<Rightarrow> js_error + out" where
  "tokenTransfer_json E p info log from_a to_a val =
     (case info of (nm, smb, decimals) \<Rightarrow>
        (case checksumAddress E (tokenAddress p) of
           Inl e \<Rightarrow> Inl e
         | Inr token_c \<Rightarrow>
             (case checksumAddress E from_a of
                Inl e \<Rightarrow> Inl e
              | Inr from_c \<Rightarrow>
                  (case checksumAddress E to_a of
                     Inl e \<Rightarrow> Inl e
                   | Inr to_c \<Rightarrow>
                       Inr (TokenTransfer
                         \<lparr>tt_token_address = token_c, tt_token_name = nm, tt_token_symbol = smb,
                          tt_token_decimals = decimals, tt_from = from_c, tt_to = to_c,
                          tt_value = quotient E val decimals, tt_valueRaw = val,
                          tt_blockNumber = log_blockNumber log,
                          tt_transactionHash = log_transactionHash log,
                          tt_logIndex = log_index log\<rparr>)))))"

fun tokenTransfer_loop ::
  "env \<Rightarrow> TriggerParams \<Rightarrow> string \<times> string \<times> int \<Rightarrow> out list \<Rightarrow> Log list \<Rightarrow> js_error + out list" where
  "tokenTransfer_loop E p info returnData [] = Inr returnData"
| "tokenTransfer_loop E p info returnData (log # logs) =
     (case log_args log of
        None \<Rightarrow> tokenTransfer_loop E p info returnData logs
      | Some (from_a, to_a, val) \<Rightarrow>
          if either_skips p from_a to_a then tokenTransfer_loop E p info returnData logs
          else
            (case tokenTransfer_json E p info log from_a to_a val of
               Inl e \<Rightarrow> Inl e
             | Inr j \<Rightarrow> tokenTransfer_loop E p info (returnData @ [j]) logs))"

definition tokenTransfer :: "env \<Rightarrow> TriggerParams \<Rightarrow> int \<Rightarrow> int \<Rightarrow> js_error + out list" where
  "tokenTransfer E p fromBlock toBlock =
     (case queryFilter E ERC20_ABI (tokenAddress p) (fromFilter_of p) (toFilter_of p)
             fromBlock toBlock of
        Inl e \<Rightarrow> Inl e
      | Inr logs \<Rightarrow>
          (case tokenInfo E (tokenAddress p) of
             Inl e \<Rightarrow> Inl e
           | Inr info \<Rightarrow> tokenTransfer_loop E p info [] logs))"

definition nftTransfer_json ::
  "env \<Rightarrow> TriggerParams \<Rightarrow> Log \<Rightarrow> string \<Rightarrow> string \<Rightarrow> int \<Rightarrow> js_error + out" where
  "nftTransfer_json E p log from_a to_a tokenId =
     (case checksumAddress E (tokenAddress p) of
        Inl e \<Rightarrow> Inl e
      | Inr token_c \<Rightarrow>
          (case checksumAddress E from_a of
             Inl e \<Rightarrow> Inl e
           | Inr from_c \<Rightarrow>
               (case checksumAddress E to_a of
                  Inl e \<Rightarrow> Inl e
                | Inr to_c \<Rightarrow>
                    Inr (NftTransfer
                      \<lparr>nt_contractAddress = token_c, nt_from = from_c, nt_to = to_c,
                       nt_tokenId = tokenId, nt_blockNumber = log_blockNumber log,
                       nt_transactionHash = log_transactionHash log,
                       nt_logIndex = log_index log\<rparr>))))"

fun nftTransfer_loop ::
  "env \<Rightarrow> TriggerParams \<Rightarrow> out list \<Rightarrow> Log list \<Rightarrow> js_error + out list" where
  "nftTransfer_loop E p returnData [] = Inr returnData"
| "nftTransfer_loop E p returnData (log # logs) =
     (case log_args log of
        None \<Rightarrow> nftTransfer_loop E p returnData logs
      | Some (from_a, to_a, tokenId) \<Rightarrow>
          if either_skips p from_a to_a then nftTransfer_loop E p returnData logs
          else
            (case nftTransfer_json E p log from_a to_a tokenId of
               Inl e \<Rightarrow> Inl e
             | Inr j \<Rightarrow> nftTransfer_loop E p (returnData @ [j]) logs))"

definition nftTransfer :: "env \<Rightarrow> TriggerParams \<Rightarrow> int \<Rightarrow> int \<Rightarrow> js_error + out list" where
  "nftTransfer E p fromBlock toBlock =
     (case queryFilter E ERC721_TRANSFER_ABI (tokenAddress p) (fromFilter_of p) (toFilter_of p)
             fromBlock toBlock of
        Inl e \<Rightarrow> Inl e
      | Inr logs \<Rightarrow> nftTransfer_loop E p [] logs)"

subsection \<open>The cycle\<close>

text \<open>
  The body of the \<open>try\<close> block: exactly one of the five event types runs over the
  range; an event name that is none of them runs nothing.
\<close>

definition run_event :: "env \<Rightarrow> TriggerParams \<Rightarrow> int \<Rightarrow> int \<Rightarrow> js_error + out list" where
  "run_event E p fromBlock toBlock =
     (if event p = ''newBlock'' then newBlock E p fromBlock toBlock
      else if event p = ''contractEvent'' then contractEvent E p fromBlock toBlock
      else if event p = ''addressActivity'' then addressActivity E p fromBlock toBlock
      else if event p = ''tokenTransfer'' then tokenTransfer E p fromBlock toBlock
      else if event p = ''nftTransfer'' then nftTransfer E p fromBlock toBlock
      else Inr [])"

text \<open>The batch size the cycle works with: \<open>(options.batchSize as number) || 100\<close>.\<close>

definition batchSize :: "TriggerParams \<Rightarrow> int" where
  "batchSize p = js_or (opt_batchSize (options p)) 100"

text \<open>
  The watermark the cycle starts from, seeded on the first run, and the static data
  after the seeding.
\<close>

definition seed :: "TriggerParams \<Rightarrow> int \<Rightarrow> StaticData \<Rightarrow> int \<times> StaticData" where
  "seed p currentBlock staticData =
     (case lastBlock staticData of
        Some lb \<Rightarrow> (lb, staticData)
      | None \<Rightarrow>
          (let startBlock = js_or (opt_startBlock (options p)) 0;
               lb = (if startBlock > 0 then startBlock - 1 else currentBlock - 1)
           in (lb, staticData\<lparr>lastBlock := Some lb\<rparr>)))"

text \<open>
  One poll: the value returned (\<open>null\<close> is \<open>None\<close>, \<open>[returnData]\<close> is \<open>Some [returnData]\<close>)
  or the error thrown, together with the workflow static data the cycle leaves behind.
\<close>

definition poll ::
  "env \<Rightarrow> TriggerParams \<Rightarrow> StaticData \<Rightarrow> (js_error + out list list option) \<times> StaticData" where
  "poll E p staticData =
     (case connection E of
        Some e \<Rightarrow> (Inl e, staticData)
      | None \<Rightarrow>
          (case getBlockNumber E of
             Inl e \<Rightarrow> (Inl e, staticData)
           | Inr currentBlock \<Rightarrow>
               (case seed p currentBlock staticData of
                  (lastBlock_v, staticData1) \<Rightarrow>
                    if currentBlock \<le> lastBlock_v then (Inr None, staticData1)
                    else
                      (let fromBlock = lastBlock_v + 1;
                           toBlock = min currentBlock (fromBlock + batchSize p - 1)
                       in case run_event E p fromBlock toBlock of
                            Inl e \<Rightarrow> (Inl e, staticData1\<lparr>lastBlock := Some toBlock\<rparr>)
                          | Inr returnData \<Rightarrow>
                              (if returnData = [] then Inr None else Inr (Some [returnData]),
                               staticData1\<lparr>lastBlock := Some toBlock\<rparr>)))))"

text \<open>A run of cycles, each on the static data the previous one left: the states in order.\<close>

fun poll_cycles :: "(env \<times> TriggerParams) list \<Rightarrow> StaticData \<Rightarrow> StaticData list" where
  "poll_cycles [] staticData = []"
| "poll_cycles (c # cs) staticData =
     (let staticData' = snd (poll (fst c) (snd c) staticData)
      in staticData' # poll_cycles cs staticData')"

section \<open>Address resolver (src/transport, resolveAddress)\<close>

text \<open>
  The two functions the resolver imports from the client library: the validity test and
  the checksumming, which throws on an invalid address.
\<close>

record ethers =
  isAddress :: "string \<Rightarrow> bool"
  getAddress :: "string \<Rightarrow> js_error + string"

text \<open>
  \<open>provider\<close> is the name lookup of the endpoint (\<open>provider.resolveName\<close>): it throws,
  finds nothing (\<open>null\<close>) or returns an address. The result comes with the list of names
  sent to the endpoint, in order: the empty list when no network call was made.
\<close>

definition resolveAddress ::
  "ethers \<Rightarrow> (string \<Rightarrow> js_error + string option) \<Rightarrow> string \<Rightarrow> (js_error + string) \<times> string list" where
  "resolveAddress lib provider addressOrEns =
     (if isAddress lib addressOrEns then (getAddress lib addressOrEns, [])
      else if CHR ''.'' \<in> set addressOrEns then
        (case provider addressOrEns of
           Inl e \<Rightarrow> (Inl e, [addressOrEns])
         | Inr resolved \<Rightarrow>
             if \<not> truthy resolved
             then (Inl (Error (''Could not resolve ENS name: '' @ addressOrEns)), [addressOrEns])
             else (Inr (js_str resolved), [addressOrEns]))
      else (Inl (Error (''Invalid address or ENS name: '' @ addressOrEns)), []))"

text \<open>
  \<open>checksumAddress\<close> of src/utils, the helper the trigger formats addresses with: the
  same two library functions, with a throw of its own on an invalid address.
\<close>

definition checksumAddress_utils :: "ethers \<Rightarrow> string \<Rightarrow> js_error + string" where
  "checksumAddress_utils lib address =
     (if \<not> isAddress lib address then Inl (Error (''Invalid Ethereum address: '' @ address))
      else getAddress lib address)"

subsection \<open>The library's address functions\<close>

text \<open>
  Modelled from the spec: \<open>isAddress\<close> and \<open>getAddress\<close> belong to the client library,
  which is imported and not part of the sources. The spec asks for "a syntactically valid
  hex address" and "its EIP-55 checksummed form"; the definitions below are EIP-55 on
  hex addresses: forty hex digits with an optional \<open>0x\<close>, each letter upper-cased when
  the matching nibble of the hash of the lower-case digits is at least 8, and a
  mixed-case input accepted only when it already is its own checksummed form. The hash
  (Keccak-256 in the library) is a parameter \<open>keccak256\<close>, returning bytes. This is the
  library on hex input; the other spelling it accepts follows in the next subsection.
\<close>

definition in_range :: "char \<Rightarrow> nat \<Rightarrow> nat \<Rightarrow> bool" where
  "in_range c lo hi = (lo \<le> (of_char c :: nat) \<and> (of_char c :: nat) \<le> hi)"

text \<open>The character class \<open>[0-9a-fA-F]\<close>, by character codes.\<close>

definition is_hex_char :: "char \<Rightarrow> bool" where
  "is_hex_char c = (in_range c 48 57 \<or> in_range c 97 102 \<or> in_range c 65 70)"

text \<open>
  Modelled from the spec: the library's test for "syntactically a valid hex address",
  forty hex digits after an optional \<open>0x\<close>.
\<close>

definition matches_hex_address :: "string \<Rightarrow> bool" where
  "matches_hex_address s =
     (let body = (if startsWith s ''0x'' then drop 2 s else s)
      in length body = 40 \<and> list_all is_hex_char body)"

text \<open>
  Modelled from the spec: the library's test for an input written in both letter cases,
  which claims to be checksummed already.
\<close>

definition mixed_case :: "string \<Rightarrow> bool" where
  "mixed_case s = (list_ex (\<lambda>c. in_range c 65 70) s \<and> list_ex (\<lambda>c. in_range c 97 102) s)"

definition hash_nibble :: "nat list \<Rightarrow> nat \<Rightarrow> nat" where
  "hash_nibble hashed i =
     (let b = (if i div 2 < length hashed then hashed ! (i div 2) else 0)
      in if even i then b div 16 else b mod 16)"

text \<open>
  Modelled from the spec: the library's EIP-55 checksumming of a \<open>0x\<close>-prefixed
  address of forty hex digits. Digit \<open>i\<close> is upper-cased when nibble \<open>i\<close> of the
  hash of the lower-case digits is at least 8.
\<close>

definition getChecksumAddress :: "(string \<Rightarrow> nat list) \<Rightarrow> string \<Rightarrow> string" where
  "getChecksumAddress keccak256 address =
     (let chars = drop 2 (toLowerCase address);
          hashed = keccak256 chars
      in ''0x'' @ map (\<lambda>i. if hash_nibble hashed i \<ge> 8 then toUpperCase_char (chars ! i)
                             else chars ! i) [0..<40])"

text \<open>The missing \<open>0x\<close> prefix is added before checksumming.\<close>

definition with_0x :: "string \<Rightarrow> string" where
  "with_0x address = (if startsWith address ''0x'' then address else ''0x'' @ address)"

text \<open>
  Modelled from the spec: the library's \<open>getAddress\<close> on hex input. It returns the
  checksummed form, and throws on an input that is not a hex address or that is written
  in both letter cases without being its own checksummed form.
\<close>

definition eip55_getAddress :: "(string \<Rightarrow> nat list) \<Rightarrow> string \<Rightarrow> js_error + string" where
  "eip55_getAddress keccak256 address =
     (if matches_hex_address address then
        (let address1 = with_0x address;
             result = getChecksumAddress keccak256 address1
         in if mixed_case address1 \<and> result \<noteq> address1
            then Inl (Error ''bad address checksum'')
            else Inr result)
      else Inl (Error ''invalid address''))"

text \<open>
  Modelled from the spec: the library's \<open>isAddress\<close>, true exactly when \<open>getAddress\<close>
  does not throw.
\<close>

definition eip55_isAddress :: "(string \<Rightarrow> nat list) \<Rightarrow> string \<Rightarrow> bool" where
  "eip55_isAddress keccak256 address =
     (case eip55_getAddress keccak256 address of Inl e \<Rightarrow> False | Inr r \<Rightarrow> True)"

definition eip55 :: "(string \<Rightarrow> nat list) \<Rightarrow> ethers" where
  "eip55 keccak256 =
     \<lparr>isAddress = eip55_isAddress keccak256, getAddress = eip55_getAddress keccak256\<rparr>"

subsection \<open>The library's ICAP input\<close>

text \<open>
  Modelled from the spec: the rest of the library's \<open>getAddress\<close> (imported, not part of
  the sources). The spec speaks of hex addresses only; the library accepts one more
  spelling, the ICAP one: \<open>XE\<close>, two check digits, and 30 or 31 base-36 digits that
  spell the address as a number. The definitions below follow the library on that
  spelling; the texts of its error messages are shortened.
\<close>

definition toUpperCase :: "string \<Rightarrow> string" where
  "toUpperCase s = map toUpperCase_char s"

text \<open>Modelled from the spec: the library's pattern \<open>XE[0-9]{2}[0-9A-Za-z]{30,31}\<close>.\<close>

definition matches_icap :: "string \<Rightarrow> bool" where
  "matches_icap s =
     (startsWith s ''XE'' \<and> (length s = 34 \<or> length s = 35) \<and>
      list_all (\<lambda>c. in_range c 48 57) (take 2 (drop 2 s)) \<and>
      list_all (\<lambda>c. in_range c 48 57 \<or> in_range c 65 90 \<or> in_range c 97 122) (drop 4 s))"

text \<open>
  Modelled from the spec: the decimal number the IBAN check reads, digit by digit: a
  digit stands for itself, a capital letter for the two digits of 10 to 35.
\<close>

definition iban_step :: "nat \<Rightarrow> char \<Rightarrow> nat" where
  "iban_step acc c =
     (let n = (of_char c :: nat)
      in if 48 \<le> n \<and> n \<le> 57 then acc * 10 + (n - 48) else acc * 100 + (n - 55))"

fun iban_number :: "nat \<Rightarrow> string \<Rightarrow> nat" where
  "iban_number acc [] = acc"
| "iban_number acc (c # cs) = iban_number (iban_step acc c) cs"

text \<open>
  Modelled from the spec: the library's \<open>ibanChecksum\<close>. The digits after the first four
  characters, then the country letters, then \<open>00\<close>, are read as a number; the check is
  98 minus that number modulo 97, written with two digits. (The library takes the
  remainder fifteen digits at a time, which gives the remainder of the whole number.)
\<close>

definition ibanChecksum :: "string \<Rightarrow> string" where
  "ibanChecksum address =
     (let upper = toUpperCase address;
          checksum = 98 - iban_number 0 (drop 4 upper @ take 2 upper @ ''00'') mod 97
      in [char_of (48 + checksum div 10), char_of (48 + checksum mod 10)])"

text \<open>Modelled from the spec: the library's \<open>fromBase36\<close>, on the lower-cased digits.\<close>

fun fromBase36 :: "nat \<Rightarrow> string \<Rightarrow> nat" where
  "fromBase36 acc [] = acc"
| "fromBase36 acc (c # cs) =
     (let n = (of_char (toLowerCase_char c) :: nat)
      in fromBase36 (acc * 36 + (if 48 \<le> n \<and> n \<le> 57 then n - 48 else n - 87)) cs)"

text \<open>The number in lower-case hex, as \<open>toString(16)\<close> prints it.\<close>

fun to_hex :: "nat \<Rightarrow> string" where
  "to_hex n =
     (if n < 16 then [''0123456789abcdef'' ! n]
      else to_hex (n div 16) @ [''0123456789abcdef'' ! (n mod 16)])"

declare to_hex.simps [simp del]

text \<open>
  Modelled from the spec: the ICAP branch of the library's \<open>getAddress\<close>. The number is
  padded with zeros to forty hex digits and checksummed; digits beyond the fortieth, which
  31 base-36 digits can produce, are left as they are.
\<close>

definition icap_getAddress :: "(string \<Rightarrow> nat list) \<Rightarrow> string \<Rightarrow> js_error + string" where
  "icap_getAddress keccak256 address =
     (if take 2 (drop 2 address) \<noteq> ibanChecksum address then Inl (Error ''bad icap checksum'')
      else
        (let result = to_hex (fromBase36 0 (drop 4 address));
             padded = replicate (40 - length result) (CHR ''0'') @ result
         in Inr (getChecksumAddress keccak256 (''0x'' @ take 40 padded) @ drop 40 padded)))"

text \<open>
  Modelled from the spec: the library's \<open>getAddress\<close> and \<open>isAddress\<close> on every input:
  the hex spelling first, then the ICAP one, and a throw on anything else.
\<close>

definition ethers_getAddress :: "(string \<Rightarrow> nat list) \<Rightarrow> string \<Rightarrow> js_error + string" where
  "ethers_getAddress keccak256 address =
     (if matches_hex_address address then eip55_getAddress keccak256 address
      else if matches_icap address then icap_getAddress keccak256 address
      else Inl (Error ''invalid address''))"

definition ethers_isAddress :: "(string \<Rightarrow> nat list) \<Rightarrow> string \<Rightarrow> bool" where
  "ethers_isAddress keccak256 address =
     (case ethers_getAddress keccak256 address of Inl e \<Rightarrow> False | Inr r \<Rightarrow> True)"

definition ethers_lib :: "(string \<Rightarrow> nat list) \<Rightarrow> ethers" where
  "ethers_lib keccak256 =
     \<lparr>isAddress = ethers_isAddress keccak256, getAddress = ethers_getAddress keccak256\<rparr>"

section \<open>Vocabulary of the properties\<close>

text \<open>
  The identity of a log (block number, transaction hash, log index), the identity an
  emitted transfer record carries over from its log, and the test the filter type
  \<open>either\<close> stands for: the sender or the recipient is the filter address, letter case
  aside.
\<close>

definition log_id :: "Log \<Rightarrow> int \<times> string \<times> int" where
  "log_id log = (log_blockNumber log, log_transactionHash log, log_index log)"

fun out_id :: "out \<Rightarrow> (int \<times> string \<times> int) option" where
  "out_id (TokenTransfer j) = Some (tt_blockNumber j, tt_transactionHash j, tt_logIndex j)"
| "out_id (NftTransfer j) = Some (nt_blockNumber j, nt_transactionHash j, nt_logIndex j)"
| "out_id other = None"

definition either_match :: "string \<Rightarrow> Log \<Rightarrow> bool" where
  "either_match filterAddress log =
     (case log_args log of
        None \<Rightarrow> False
      | Some (from_a, to_a, val) \<Rightarrow>
          toLowerCase from_a = toLowerCase filterAddress \<or>
          toLowerCase to_a = toLowerCase filterAddress)"

text \<open>The addresses the decoded logs carry.\<close>

definition log_addresses :: "Log list \<Rightarrow> string list" where
  "log_addresses logs =
     concat (map (\<lambda>log. case log_args log of
                           None \<Rightarrow> []
                         | Some (from_a, to_a, val) \<Rightarrow> [from_a, to_a]) logs)"

definition transfer_abi :: "TriggerParams \<Rightarrow> abi_kind" where
  "transfer_abi p = (if event p = ''tokenTransfer'' then ERC20_ABI else ERC721_TRANSFER_ABI)"

section \<open>Concrete inputs\<close>

text \<open>
  A quiet endpoint whose chain head is \<open>head\<close>: every call succeeds and finds nothing.
\<close>

definition env0 :: "int \<Rightarrow> env" where
  "env0 head =
     \<lparr>connection = None, getBlockNumber = Inr head, getBlock = (\<lambda>n b. Inr None),
      clock = (\<lambda>n. 0), parseAbi = (\<lambda>a. None), eventFilter = (\<lambda>a n. Inr True),
      queryEvents = (\<lambda>c a n f t. Inr []), parseLog = (\<lambda>a l. []),
      resolveName = (\<lambda>n. Inr None), parseMinValue = (\<lambda>s. Inr 0),
      queryFilter = (\<lambda>k a f t fb tb. Inr []), tokenInfo = (\<lambda>a. Inr (''Token'', ''TKN'', 18)),
      checksumAddress = (\<lambda>a. Inr a), quotient = (\<lambda>v d. ''0'')\<rparr>"

text \<open>The same endpoint with a log query that throws.\<close>

definition env_failing :: "int \<Rightarrow> env" where
  "env_failing head = (env0 head)\<lparr>queryFilter := (\<lambda>k a f t fb tb. Inl (Error ''rpc down''))\<rparr>"

definition params0 :: "string \<Rightarrow> int option \<Rightarrow> int option \<Rightarrow> TriggerParams" where
  "params0 ev bs sb =
     \<lparr>event = ev, options = \<lparr>opt_batchSize = bs, opt_startBlock = sb\<rparr>,
      includeBlockDetails = False, includeTransactions = False, contractAddress = [],
      abi = [], eventName = [], watchAddress = [], activityType = ''both'',
      minValue = ''0'', tokenAddress = ''0x777'', tokenFilterType = ''all'',
      tokenFilterAddress = []\<rparr>"

text \<open>
  Two transfers, from \<open>0xABC\<close> to \<open>0xDEF\<close> and from \<open>0x111\<close> to \<open>0x222\<close>, and an
  endpoint that returns them for the unconstrained query and nothing for a constrained one.
\<close>

definition transfer_log :: "int \<Rightarrow> string \<Rightarrow> string \<Rightarrow> string \<Rightarrow> Log" where
  "transfer_log n h from_a to_a =
     \<lparr>log_blockNumber = n, log_transactionHash = h, log_index = 0, log_topics = [],
      log_data = [], log_args = Some (from_a, to_a, 1)\<rparr>"

definition two_logs :: "Log list" where
  "two_logs = [transfer_log 5 ''0xaa'' ''0xABC'' ''0xDEF'', transfer_log 6 ''0xbb'' ''0x111'' ''0x222'']"

definition env_logs :: "int \<Rightarrow> env" where
  "env_logs head =
     (env0 head)\<lparr>queryFilter :=
        (\<lambda>k a f t fb tb. if f = None \<and> t = None then Inr two_logs else Inr [])\<rparr>"

definition params_either :: "string \<Rightarrow> TriggerParams" where
  "params_either ev =
     (params0 ev None None)\<lparr>tokenFilterType := ''either'', tokenFilterAddress := ''0xabc''\<rparr>"

text \<open>A stand-in hash, for running the address functions on a concrete input.\<close>

definition toy_hash :: "string \<Rightarrow> nat list" where
  "toy_hash s = map (\<lambda>c. (of_char c * 7) mod 256) s"

text \<open>An endpoint that knows no name.\<close>

definition no_names :: "string \<Rightarrow> js_error + string option" where
  "no_names n = Inr None"

section \<open>Properties of the endpoint resolver\<close>

lemma scenario_sepolia_public:
  "buildRpcUrl (creds ''sepolia'' ''public'' None None) = Inr ''https://rpc.sepolia.org''"
  by (simp add: buildRpcUrl_def creds_def NETWORKS_get_def NETWORKS_def mk_net_def mk_rpc_def
        truthy_def js_str_def)

lemma scenario_mainnet_infura:
  "buildRpcUrl (creds ''mainnet'' ''infura'' (Some ''KEY123'') None)
     = Inr ''https://mainnet.infura.io/v3/KEY123''"
  by (simp add: buildRpcUrl_def creds_def NETWORKS_get_def NETWORKS_def mk_net_def mk_rpc_def
        rpcUrls_get_def own_or_undefined_def truthy_def js_str_def)

text \<open>
  C5. The claim: for a network with an ankr hostname template, provider \<open>ankr\<close> and no API
  key, \<open>buildRpcUrl\<close> returns \<open>https://\<close> followed by the template, with no key segment.
  The code does not: the API-key check comes before the provider switch, so the call
  throws and the keyless branch of the \<open>ankr\<close> case is never reached. Evaluated on
  mainnet, with the key absent and with the key empty.
\<close>

theorem buildRpcUrl_ankr_without_key_throws:
  "buildRpcUrl (creds ''mainnet'' ''ankr'' None None)
     = Inl (Error ''API key is required for ankr provider'')
   \<and> buildRpcUrl (creds ''mainnet'' ''ankr'' (Some []) None)
     = Inl (Error ''API key is required for ankr provider'')"
  by (simp add: buildRpcUrl_def creds_def NETWORKS_get_def NETWORKS_def mk_net_def mk_rpc_def
        truthy_def)

text \<open>
  C6. The claim: for provider \<open>quicknode\<close> on a named network with a custom RPC URL
  supplied, \<open>buildRpcUrl\<close> returns that URL. The code does not: no network of the table has
  a \<open>quicknode\<close> hostname template, so the template lookup throws before the \<open>quicknode\<close>
  case, which prefers the custom URL, is reached. Evaluated on mainnet with an API key
  and a custom URL.
\<close>

theorem buildRpcUrl_quicknode_custom_url_throws:
  "buildRpcUrl (creds ''mainnet'' ''quicknode'' (Some ''KEY123'')
                  (Some ''https://example.quiknode.pro/abc''))
     = Inl (Error ''Provider quicknode not available for network: mainnet'')"
  by (simp add: buildRpcUrl_def creds_def NETWORKS_get_def NETWORKS_def mk_net_def mk_rpc_def
        rpcUrls_get_def own_or_undefined_def object_prototype_keys_def truthy_def)

text \<open>
  Both guards hold on every network, not only on mainnet: with provider \<open>ankr\<close> and no
  key, and with provider \<open>quicknode\<close> whatever the key and the custom URL, a named
  network never gets a URL.
\<close>

lemma buildRpcUrl_ankr_keyless_throws_everywhere:
  assumes "rpcProvider c = ''ankr''" and "\<not> truthy (apiKey c)" and "network c \<noteq> ''custom''"
  shows "isl (buildRpcUrl c)"
  using assms by (simp add: buildRpcUrl_def split: js_prop.splits)

lemma buildRpcUrl_quicknode_throws_everywhere:
  assumes "rpcProvider c = ''quicknode''" and "network c \<noteq> ''custom''"
  shows "isl (buildRpcUrl c)"
  using assms
  by (simp add: buildRpcUrl_def rpcUrls_get_def object_prototype_keys_def truthy_def
        split: js_prop.splits)

section \<open>Properties of the poll cursor engine\<close>

lemma poll_idle:
  assumes "connection E = None" "getBlockNumber E = Inr currentChainHead"
    and "lastBlock staticData = Some watermark" "currentChainHead \<le> watermark"
  shows "poll E p staticData = (Inr None, staticData)"
  using assms by (simp add: poll_def seed_def)

lemma poll_processing:
  assumes "connection E = None" "getBlockNumber E = Inr currentChainHead"
    and "lastBlock staticData = Some watermark" "currentChainHead > watermark"
  shows "poll E p staticData =
           (case run_event E p (watermark + 1)
                   (min currentChainHead (watermark + 1 + batchSize p - 1)) of
              Inl e \<Rightarrow> Inl e
            | Inr returnData \<Rightarrow> if returnData = [] then Inr None else Inr (Some [returnData]),
            staticData\<lparr>lastBlock := Some (min currentChainHead (watermark + 1 + batchSize p - 1))\<rparr>)"
  using assms by (simp add: poll_def seed_def Let_def split: sum.splits)

text \<open>
  A cycle on a set watermark \<open>w\<close> either leaves it alone or sets it to the end of the
  range computed from \<open>w\<close> and a chain head above \<open>w\<close>.
\<close>

lemma poll_step_cases:
  assumes "lastBlock staticData = Some w"
  shows "lastBlock (snd (poll E p staticData)) = Some w
       \<or> (\<exists>head. w < head \<and>
             lastBlock (snd (poll E p staticData)) = Some (min head (w + 1 + batchSize p - 1)))"
proof (cases "connection E")
  case (Some e)
  then show ?thesis using assms by (simp add: poll_def)
next
  case None
  show ?thesis
  proof (cases "getBlockNumber E")
    case (Inl e)
    then show ?thesis using None assms by (simp add: poll_def)
  next
    case (Inr head)
    show ?thesis
    proof (cases "head \<le> w")
      case True
      then show ?thesis using poll_idle[OF None Inr assms, of p] assms by simp
    next
      case False
      then have "w < head" by simp
      from poll_processing[OF None Inr assms this, of p] this show ?thesis
        by (intro disjI2 exI[of _ head]) simp
    qed
  qed
qed

lemma poll_step_mono:
  assumes "lastBlock staticData = Some w" "0 < batchSize p"
  shows "\<exists>w'. lastBlock (snd (poll E p staticData)) = Some w' \<and> w \<le> w'"
  using poll_step_cases[OF assms(1), of E p] assms(2) by auto

text \<open>
  C1. The claim as written, for every sequence of cycles, fails: the batch size is
  taken from the options as it is, and a negative one puts the end of the range below the
  watermark. With watermark 10, chain head 20 and batch size -5 the cycle computes the
  range from 11 to 5 and leaves the watermark at 5.
\<close>

theorem watermark_decreases_with_negative_batch:
  "lastBlock (snd (poll (env0 20) (params0 ''newBlock'' (Some (- 5)) None) \<lparr>lastBlock = Some 10\<rparr>))
     = Some 5 \<and> \<not> (10::int) \<le> 5"
  by (simp add: poll_def seed_def env0_def params0_def batchSize_def js_or_def run_event_def
        newBlock_def Let_def)

text \<open>
  C1, as amended. When the batch size every cycle works with is positive (the configured
  one is not negative; zero and absent mean 100), then for every sequence of cycles, idle,
  successful or throwing, started on a set watermark \<open>w\<close>, every cycle leaves a set
  watermark, and the watermarks in order, \<open>w\<close> first, never decrease.
\<close>

theorem watermark_never_decreases:
  assumes "\<forall>c \<in> set cycles. 0 < batchSize (snd c)" and "lastBlock staticData = Some w"
  shows "\<exists>ws. map lastBlock (poll_cycles cycles staticData) = map Some ws \<and> sorted (w # ws)"
  using assms
proof (induction cycles arbitrary: staticData w)
  case Nil
  then show ?case by simp
next
  case (Cons c cs)
  let ?next = "snd (poll (fst c) (snd c) staticData)"
  from poll_step_mono[of staticData w "snd c" "fst c"] Cons.prems
  obtain w' where w': "lastBlock ?next = Some w'" and le: "w \<le> w'"
    by auto
  from Cons.IH[OF _ w'] Cons.prems(1)
  obtain ws where ws: "map lastBlock (poll_cycles cs ?next) = map Some ws"
    and s: "sorted (w' # ws)" by auto
  have "map lastBlock (poll_cycles (c # cs) staticData) = map Some (w' # ws)"
    using w' ws by (simp add: Let_def)
  moreover have "sorted (w # w' # ws)" using le s by auto
  ultimately show ?case by blast
qed

theorem watermark_never_decreases_witness:
  "map lastBlock
     (poll_cycles [(env0 1050, params0 ''newBlock'' (Some 100) None),
                   (env0 1050, params0 ''newBlock'' None None),
                   (env_failing 1200, params0 ''tokenTransfer'' (Some 0) None)]
        \<lparr>lastBlock = Some 999\<rparr>) = [Some 1050, Some 1050, Some 1150]
   \<and> (\<exists>ws. map lastBlock
         (poll_cycles [(env0 1050, params0 ''newBlock'' (Some 100) None),
                       (env0 1050, params0 ''newBlock'' None None),
                       (env_failing 1200, params0 ''tokenTransfer'' (Some 0) None)]
            \<lparr>lastBlock = Some 999\<rparr>) = map Some ws \<and> sorted (999 # ws))"
proof -
  have h1: "\<forall>c \<in> set [(env0 1050, params0 ''newBlock'' (Some 100) None),
                       (env0 1050, params0 ''newBlock'' None None),
                       (env_failing 1200, params0 ''tokenTransfer'' (Some 0) None)].
              0 < batchSize (snd c)"
    by (simp add: batchSize_def params0_def js_or_def)
  have h2: "lastBlock \<lparr>lastBlock = Some 999\<rparr> = Some 999" by simp
  have run: "map lastBlock
     (poll_cycles [(env0 1050, params0 ''newBlock'' (Some 100) None),
                   (env0 1050, params0 ''newBlock'' None None),
                   (env_failing 1200, params0 ''tokenTransfer'' (Some 0) None)]
        \<lparr>lastBlock = Some 999\<rparr>) = [Some 1050, Some 1050, Some 1150]"
    by code_simp
  show ?thesis using run watermark_never_decreases[OF h1 h2] by blast
qed

text \<open>
  C2. In a cycle that has new blocks to process (the chain head is above the watermark
  the cycle starts from, seeded or stored), if the event query throws, the cycle throws
  the same error and leaves the watermark at \<open>toBlock\<close>, the end of the computed range,
  which is the chain head only when the batch size does not cap the range.
\<close>

theorem error_cycle_sets_watermark_and_rethrows:
  assumes "connection E = None" and "getBlockNumber E = Inr currentChainHead"
    and "seed p currentChainHead staticData = (watermark, staticData1)"
    and "currentChainHead > watermark"
    and "run_event E p (watermark + 1)
           (min currentChainHead (watermark + 1 + batchSize p - 1)) = Inl err"
  shows "poll E p staticData =
           (Inl err,
            staticData1\<lparr>lastBlock :=
              Some (min currentChainHead (watermark + 1 + batchSize p - 1))\<rparr>)"
  using assms by (simp add: poll_def Let_def)

theorem error_cycle_sets_watermark_and_rethrows_witness:
  "poll (env_failing 1000) (params0 ''tokenTransfer'' (Some 100) None) \<lparr>lastBlock = Some 0\<rparr>
     = (Inl (Error ''rpc down''), \<lparr>lastBlock = Some 100\<rparr>)"
proof -
  let ?E = "env_failing 1000" and ?p = "params0 ''tokenTransfer'' (Some 100) None"
  have b: "batchSize ?p = 100" by (simp add: batchSize_def params0_def js_or_def)
  have h1: "connection ?E = None" by (simp add: env_failing_def env0_def)
  have h2: "getBlockNumber ?E = Inr 1000" by (simp add: env_failing_def env0_def)
  have h3: "seed ?p 1000 \<lparr>lastBlock = Some 0\<rparr> = (0, \<lparr>lastBlock = Some 0\<rparr>)"
    by (simp add: seed_def)
  have h4: "(1000::int) > 0" by simp
  have h5: "run_event ?E ?p (0 + 1) (min 1000 (0 + 1 + batchSize ?p - 1)) = Inl (Error ''rpc down'')"
    by (simp add: run_event_def params0_def tokenTransfer_def env_failing_def env0_def)
  show ?thesis
    using error_cycle_sets_watermark_and_rethrows[OF h1 h2 h3 h4 h5] b by simp
qed

text \<open>
  C3. In a cycle with new blocks to process (stored watermark below the chain head), the
  event query runs over the range from \<open>watermark + 1\<close> to
  \<open>min currentChainHead (fromBlock + batchSize - 1)\<close>, and the watermark afterwards is
  the end of that range, whether the query returns or throws; when the chain head is more
  than \<open>batchSize\<close> blocks above the watermark, the watermark advances by exactly
  \<open>batchSize\<close>. Here \<open>batchSize\<close> is the batch size the cycle works with.
\<close>

theorem processing_cycle_range_and_watermark:
  assumes "connection E = None" and "getBlockNumber E = Inr currentChainHead"
    and "lastBlock staticData = Some watermark" and "currentChainHead > watermark"
  shows "(let fromBlock = watermark + 1;
              toBlock = min currentChainHead (fromBlock + batchSize p - 1)
          in poll E p staticData =
               (case run_event E p fromBlock toBlock of
                  Inl e \<Rightarrow> Inl e
                | Inr returnData \<Rightarrow>
                    if returnData = [] then Inr None else Inr (Some [returnData]),
                staticData\<lparr>lastBlock := Some toBlock\<rparr>))
       \<and> (currentChainHead - watermark > batchSize p \<longrightarrow>
            lastBlock (snd (poll E p staticData)) = Some (watermark + batchSize p))"
  using poll_processing[OF assms, of p] by (simp add: Let_def)

theorem processing_cycle_range_and_watermark_witness:
  "poll (env0 1050) (params0 ''newBlock'' (Some 100) None) \<lparr>lastBlock = Some 999\<rparr>
     = (Inr (Some [map (\<lambda>n. BlockStub n 0) [1000..1050]]), \<lparr>lastBlock = Some 1050\<rparr>)
   \<and> 2000 - 999 > batchSize (params0 ''newBlock'' (Some 100) None)
   \<and> lastBlock (snd (poll (env0 2000) (params0 ''newBlock'' (Some 100) None)
                        \<lparr>lastBlock = Some 999\<rparr>)) = Some 1099"
proof -
  let ?p = "params0 ''newBlock'' (Some 100) None"
  have b: "batchSize ?p = 100" by (simp add: batchSize_def params0_def js_or_def)
  have c1: "connection (env0 1050) = None" and g1: "getBlockNumber (env0 1050) = Inr 1050"
    and c2: "connection (env0 2000) = None" and g2: "getBlockNumber (env0 2000) = Inr 2000"
    by (simp_all add: env0_def)
  have l: "lastBlock \<lparr>lastBlock = Some 999\<rparr> = Some 999" by simp
  have r: "run_event (env0 1050) ?p 1000 1050 = Inr (map (\<lambda>n. BlockStub n 0) [1000..1050])"
    by (simp add: run_event_def params0_def newBlock_def env0_def upto_rec1)
  have ne: "map (\<lambda>n. BlockStub n 0) [1000..1050] \<noteq> []" by (simp add: upto_rec1)
  have first: "poll (env0 1050) ?p \<lparr>lastBlock = Some 999\<rparr>
     = (Inr (Some [map (\<lambda>n. BlockStub n 0) [1000..1050]]), \<lparr>lastBlock = Some 1050\<rparr>)"
    using processing_cycle_range_and_watermark[OF c1 g1 l, of ?p] b r ne
    by (simp add: Let_def)
  have second: "lastBlock (snd (poll (env0 2000) ?p \<lparr>lastBlock = Some 999\<rparr>)) = Some 1099"
    using processing_cycle_range_and_watermark[OF c2 g2 l, of ?p] b by simp
  show ?thesis using first second b by simp
qed

text \<open>
  C4. When the chain head is at or below the stored watermark, the cycle returns no
  output (\<open>null\<close>) and leaves the static data, the watermark with it, as it was.
\<close>

theorem idle_cycle_no_output_watermark_unchanged:
  assumes "connection E = None" and "getBlockNumber E = Inr currentChainHead"
    and "lastBlock staticData = Some watermark" and "currentChainHead \<le> watermark"
  shows "poll E p staticData = (Inr None, staticData)"
  using assms by (rule poll_idle)

theorem idle_cycle_no_output_watermark_unchanged_witness:
  "poll (env0 1050) (params0 ''newBlock'' (Some 100) None) \<lparr>lastBlock = Some 1050\<rparr>
     = (Inr None, \<lparr>lastBlock = Some 1050\<rparr>)
   \<and> poll (env0 1050) (params0 ''tokenTransfer'' None None) \<lparr>lastBlock = Some 1060\<rparr>
     = (Inr None, \<lparr>lastBlock = Some 1060\<rparr>)"
proof -
  have c: "connection (env0 1050) = None" and g: "getBlockNumber (env0 1050) = Inr 1050"
    by (simp_all add: env0_def)
  have l1: "lastBlock \<lparr>lastBlock = Some 1050\<rparr> = Some 1050"
    and l2: "lastBlock \<lparr>lastBlock = Some 1060\<rparr> = Some 1060" by simp_all
  have le1: "(1050::int) \<le> 1050" and le2: "(1050::int) \<le> 1060" by simp_all
  show ?thesis
    using idle_cycle_no_output_watermark_unchanged[OF c g l1 le1]
      idle_cycle_no_output_watermark_unchanged[OF c g l2 le2]
    by simp
qed

text \<open>
  C10. The claim as written ends with "no configuration can start processing from block
  0". That part fails when the chain head itself is block 0: with the default options the
  first poll seeds the watermark to -1 and processes block 0.
\<close>

theorem first_poll_processes_block_zero:
  "poll (env0 0) (params0 ''newBlock'' None (Some 0)) \<lparr>lastBlock = None\<rparr>
     = (Inr (Some [[BlockStub 0 0]]), \<lparr>lastBlock = Some 0\<rparr>)"
  by (simp add: poll_def seed_def env0_def params0_def batchSize_def js_or_def run_event_def
        newBlock_def Let_def upto_rec1)

text \<open>
  C10, as amended. On the first poll (watermark unset) the cycle behaves as a cycle on
  the seeded watermark: \<open>startBlock - 1\<close> when the configured start block is strictly
  greater than 0, and \<open>currentChainHead - 1\<close> otherwise, a configured 0 (the default)
  being treated as not supplied. Consequently, on a chain whose head is above block 0,
  no configuration makes the first processed block, \<open>seeded + 1\<close>, block 0.
\<close>

theorem first_poll_seeds_watermark:
  assumes "connection E = None" and "getBlockNumber E = Inr currentChainHead"
    and "lastBlock staticData = None"
  shows "(let seeded = (case opt_startBlock (options p) of
                          None \<Rightarrow> currentChainHead - 1
                        | Some startBlock \<Rightarrow>
                            if startBlock > 0 then startBlock - 1 else currentChainHead - 1)
          in poll E p staticData = poll E p (staticData\<lparr>lastBlock := Some seeded\<rparr>)
             \<and> (0 < currentChainHead \<longrightarrow> 0 < seeded + 1))"
  using assms
  by (auto simp: poll_def seed_def js_or_def Let_def split: option.splits)

theorem first_poll_seeds_watermark_witness:
  "poll (env0 1050) (params0 ''newBlock'' None (Some 0)) \<lparr>lastBlock = None\<rparr>
     = poll (env0 1050) (params0 ''newBlock'' None (Some 0)) \<lparr>lastBlock = Some 1049\<rparr>
   \<and> poll (env0 1050) (params0 ''newBlock'' None (Some 0)) \<lparr>lastBlock = Some 1049\<rparr>
     = (Inr (Some [[BlockStub 1050 0]]), \<lparr>lastBlock = Some 1050\<rparr>)
   \<and> poll (env0 1050) (params0 ''newBlock'' None (Some 7)) \<lparr>lastBlock = None\<rparr>
     = poll (env0 1050) (params0 ''newBlock'' None (Some 7)) \<lparr>lastBlock = Some 6\<rparr>
   \<and> (0::int) < 1050"
proof -
  have c: "connection (env0 1050) = None" and g: "getBlockNumber (env0 1050) = Inr 1050"
    by (simp_all add: env0_def)
  have l: "lastBlock \<lparr>lastBlock = None\<rparr> = None" by simp
  have o0: "opt_startBlock (options (params0 ''newBlock'' None (Some 0))) = Some 0"
    and o7: "opt_startBlock (options (params0 ''newBlock'' None (Some 7))) = Some 7"
    by (simp_all add: params0_def)
  have run: "poll (env0 1050) (params0 ''newBlock'' None (Some 0)) \<lparr>lastBlock = Some 1049\<rparr>
     = (Inr (Some [[BlockStub 1050 0]]), \<lparr>lastBlock = Some 1050\<rparr>)"
    by (simp add: poll_def seed_def env0_def params0_def batchSize_def js_or_def run_event_def
          newBlock_def Let_def upto_rec1)
  show ?thesis
    using first_poll_seeds_watermark[OF c g l, of "params0 ''newBlock'' None (Some 0)"]
      first_poll_seeds_watermark[OF c g l, of "params0 ''newBlock'' None (Some 7)"] o0 o7 run
    by (simp add: Let_def)
qed

lemma tokenTransfer_json_id:
  "tokenTransfer_json E p info log f t v = Inr j \<Longrightarrow> out_id j = Some (log_id log)"
  by (auto simp: tokenTransfer_json_def log_id_def split: prod.splits sum.splits)

lemma nftTransfer_json_id:
  "nftTransfer_json E p log f t v = Inr j \<Longrightarrow> out_id j = Some (log_id log)"
  by (auto simp: nftTransfer_json_def log_id_def split: prod.splits sum.splits)

lemma tokenTransfer_json_ok:
  "\<not> isl (checksumAddress E (tokenAddress p)) \<Longrightarrow> \<not> isl (checksumAddress E f) \<Longrightarrow>
   \<not> isl (checksumAddress E t) \<Longrightarrow> \<exists>j. tokenTransfer_json E p info log f t v = Inr j"
  by (auto simp: tokenTransfer_json_def split: prod.splits sum.splits)

lemma nftTransfer_json_ok:
  "\<not> isl (checksumAddress E (tokenAddress p)) \<Longrightarrow> \<not> isl (checksumAddress E f) \<Longrightarrow>
   \<not> isl (checksumAddress E t) \<Longrightarrow> \<exists>j. nftTransfer_json E p log f t v = Inr j"
  by (auto simp: nftTransfer_json_def split: prod.splits sum.splits)

lemma either_skips_iff:
  assumes "tokenFilterType p = ''either''" "tokenFilterAddress p \<noteq> []"
    and "log_args log = Some (f, t, v)"
  shows "either_skips p f t \<longleftrightarrow> \<not> either_match (tokenFilterAddress p) log"
  using assms by (simp add: either_skips_def either_match_def)

text \<open>
  The loop over the logs, started on any accumulated output: it appends one record for
  each log that passes the test, in order, and nothing else.
\<close>

lemma tokenTransfer_loop_either:
  assumes "tokenFilterType p = ''either''" "tokenFilterAddress p \<noteq> []"
    and "\<not> isl (checksumAddress E (tokenAddress p))"
    and "\<forall>a \<in> set (log_addresses logs). \<not> isl (checksumAddress E a)"
  shows "\<exists>outs. tokenTransfer_loop E p info acc logs = Inr (acc @ outs)
           \<and> map out_id outs
               = map (Some \<circ> log_id) (filter (either_match (tokenFilterAddress p)) logs)"
  using assms(4)
proof (induction logs arbitrary: acc)
  case Nil
  then show ?case by simp
next
  case (Cons log logs)
  have rest: "\<forall>a \<in> set (log_addresses logs). \<not> isl (checksumAddress E a)"
    using Cons.prems by (simp add: log_addresses_def)
  show ?case
  proof (cases "log_args log")
    case None
    with Cons.IH[OF rest, of acc] show ?thesis by (simp add: either_match_def)
  next
    case (Some a)
    then obtain f t v where args: "log_args log = Some (f, t, v)" by (cases a) auto
    show ?thesis
    proof (cases "either_match (tokenFilterAddress p) log")
      case False
      with either_skips_iff[OF assms(1,2) args] have "either_skips p f t" by simp
      with Cons.IH[OF rest, of acc] args False show ?thesis by simp
    next
      case True
      with either_skips_iff[OF assms(1,2) args] have ns: "\<not> either_skips p f t" by simp
      have "\<not> isl (checksumAddress E f)" "\<not> isl (checksumAddress E t)"
        using Cons.prems args by (simp_all add: log_addresses_def)
      from tokenTransfer_json_ok[OF assms(3) this]
      obtain j where j: "tokenTransfer_json E p info log f t v = Inr j" by blast
      from Cons.IH[OF rest, of "acc @ [j]"]
      obtain outs where o: "tokenTransfer_loop E p info (acc @ [j]) logs = Inr ((acc @ [j]) @ outs)"
        and ids: "map out_id outs
                    = map (Some \<circ> log_id) (filter (either_match (tokenFilterAddress p)) logs)"
        by blast
      have "tokenTransfer_loop E p info acc (log # logs) = Inr (acc @ (j # outs))"
        using args ns j o by simp
      moreover have "map out_id (j # outs)
          = map (Some \<circ> log_id) (filter (either_match (tokenFilterAddress p)) (log # logs))"
        using True ids tokenTransfer_json_id[OF j] by simp
      ultimately show ?thesis by blast
    qed
  qed
qed

lemma nftTransfer_loop_either:
  assumes "tokenFilterType p = ''either''" "tokenFilterAddress p \<noteq> []"
    and "\<not> isl (checksumAddress E (tokenAddress p))"
    and "\<forall>a \<in> set (log_addresses logs). \<not> isl (checksumAddress E a)"
  shows "\<exists>outs. nftTransfer_loop E p acc logs = Inr (acc @ outs)
           \<and> map out_id outs
               = map (Some \<circ> log_id) (filter (either_match (tokenFilterAddress p)) logs)"
  using assms(4)
proof (induction logs arbitrary: acc)
  case Nil
  then show ?case by simp
next
  case (Cons log logs)
  have rest: "\<forall>a \<in> set (log_addresses logs). \<not> isl (checksumAddress E a)"
    using Cons.prems by (simp add: log_addresses_def)
  show ?case
  proof (cases "log_args log")
    case None
    with Cons.IH[OF rest, of acc] show ?thesis by (simp add: either_match_def)
  next
    case (Some a)
    then obtain f t v where args: "log_args log = Some (f, t, v)" by (cases a) auto
    show ?thesis
    proof (cases "either_match (tokenFilterAddress p) log")
      case False
      with either_skips_iff[OF assms(1,2) args] have "either_skips p f t" by simp
      with Cons.IH[OF rest, of acc] args False show ?thesis by simp
    next
      case True
      with either_skips_iff[OF assms(1,2) args] have ns: "\<not> either_skips p f t" by simp
      have "\<not> isl (checksumAddress E f)" "\<not> isl (checksumAddress E t)"
        using Cons.prems args by (simp_all add: log_addresses_def)
      from nftTransfer_json_ok[OF assms(3) this]
      obtain j where j: "nftTransfer_json E p log f t v = Inr j" by blast
      from Cons.IH[OF rest, of "acc @ [j]"]
      obtain outs where o: "nftTransfer_loop E p (acc @ [j]) logs = Inr ((acc @ [j]) @ outs)"
        and ids: "map out_id outs
                    = map (Some \<circ> log_id) (filter (either_match (tokenFilterAddress p)) logs)"
        by blast
      have "nftTransfer_loop E p acc (log # logs) = Inr (acc @ (j # outs))"
        using args ns j o by simp
      moreover have "map out_id (j # outs)
          = map (Some \<circ> log_id) (filter (either_match (tokenFilterAddress p)) (log # logs))"
        using True ids nftTransfer_json_id[OF j] by simp
      ultimately show ?thesis by blast
    qed
  qed
qed

lemma either_filters_unconstrained:
  assumes "tokenFilterType p = ''either''"
  shows "fromFilter_of p = None \<and> toFilter_of p = None"
  using assms by (simp add: fromFilter_of_def toFilter_of_def)

text \<open>
  C9. For a token-transfer or NFT-transfer cycle with filter type \<open>either\<close> and a
  non-empty filter address, the query sent for the range is the unconstrained one (both
  indexed parameters \<open>null\<close>); the records emitted are, in order, those of exactly the
  returned logs whose sender or recipient equals the filter address, letter case aside;
  every other log is dropped. The cycle emits them provided the calls after the query
  succeed: the token-info calls of a token-transfer cycle, and \<open>checksumAddress\<close> on the
  token address and on the addresses the logs carry.
\<close>

theorem either_filter_emits_matching_logs:
  assumes "event p = ''tokenTransfer'' \<or> event p = ''nftTransfer''"
    and "tokenFilterType p = ''either''" and "tokenFilterAddress p \<noteq> []"
    and "queryFilter E (transfer_abi p) (tokenAddress p) None None fromBlock toBlock = Inr logs"
    and "event p = ''tokenTransfer'' \<longrightarrow> \<not> isl (tokenInfo E (tokenAddress p))"
    and "\<forall>a \<in> set (tokenAddress p # log_addresses logs). \<not> isl (checksumAddress E a)"
  shows "\<exists>outs. run_event E p fromBlock toBlock = Inr outs
           \<and> map out_id outs
               = map (Some \<circ> log_id) (filter (either_match (tokenFilterAddress p)) logs)"
proof -
  have tok: "\<not> isl (checksumAddress E (tokenAddress p))"
    and addrs: "\<forall>a \<in> set (log_addresses logs). \<not> isl (checksumAddress E a)"
    using assms(6) by simp_all
  note unc = either_filters_unconstrained[OF assms(2)]
  from assms(1) show ?thesis
  proof
    assume ev: "event p = ''tokenTransfer''"
    with assms(5) obtain info where info: "tokenInfo E (tokenAddress p) = Inr info"
      by (cases "tokenInfo E (tokenAddress p)") auto
    from tokenTransfer_loop_either[OF assms(2,3) tok addrs, of info "[]"]
    obtain outs where "tokenTransfer_loop E p info [] logs = Inr outs"
      and "map out_id outs
             = map (Some \<circ> log_id) (filter (either_match (tokenFilterAddress p)) logs)"
      by auto
    then show ?thesis
      using ev unc assms(4) info by (simp add: run_event_def tokenTransfer_def transfer_abi_def)
  next
    assume ev: "event p = ''nftTransfer''"
    from nftTransfer_loop_either[OF assms(2,3) tok addrs, of "[]"]
    obtain outs where "nftTransfer_loop E p [] logs = Inr outs"
      and "map out_id outs
             = map (Some \<circ> log_id) (filter (either_match (tokenFilterAddress p)) logs)"
      by auto
    then show ?thesis
      using ev unc assms(4) by (simp add: run_event_def nftTransfer_def transfer_abi_def)
  qed
qed

theorem either_filter_emits_matching_logs_witness:
  "run_event (env_logs 10) (params_either ''tokenTransfer'') 1 10
     = Inr [TokenTransfer
              \<lparr>tt_token_address = ''0x777'', tt_token_name = ''Token'', tt_token_symbol = ''TKN'',
               tt_token_decimals = 18, tt_from = ''0xABC'', tt_to = ''0xDEF'', tt_value = ''0'',
               tt_valueRaw = 1, tt_blockNumber = 5, tt_transactionHash = ''0xaa'',
               tt_logIndex = 0\<rparr>]
   \<and> (\<exists>outs. run_event (env_logs 10) (params_either ''tokenTransfer'') 1 10 = Inr outs
          \<and> map out_id outs = [Some (5, ''0xaa'', 0)])
   \<and> (\<exists>outs. run_event (env_logs 10) (params_either ''nftTransfer'') 1 10 = Inr outs
          \<and> map out_id outs = [Some (5, ''0xaa'', 0)])"
proof -
  let ?E = "env_logs 10"
  let ?t = "params_either ''tokenTransfer''" and ?n = "params_either ''nftTransfer''"
  have e1: "event ?t = ''tokenTransfer'' \<or> event ?t = ''nftTransfer''"
    and e2: "event ?n = ''tokenTransfer'' \<or> event ?n = ''nftTransfer''"
    by (simp_all add: params_either_def params0_def)
  have f1: "tokenFilterType ?t = ''either''" and f2: "tokenFilterType ?n = ''either''"
    and a1: "tokenFilterAddress ?t \<noteq> []" and a2: "tokenFilterAddress ?n \<noteq> []"
    by (simp_all add: params_either_def params0_def)
  have q1: "queryFilter ?E (transfer_abi ?t) (tokenAddress ?t) None None 1 10 = Inr two_logs"
    and q2: "queryFilter ?E (transfer_abi ?n) (tokenAddress ?n) None None 1 10 = Inr two_logs"
    by (simp_all add: env_logs_def env0_def)
  have i1: "event ?t = ''tokenTransfer'' \<longrightarrow> \<not> isl (tokenInfo ?E (tokenAddress ?t))"
    and i2: "event ?n = ''tokenTransfer'' \<longrightarrow> \<not> isl (tokenInfo ?E (tokenAddress ?n))"
    by (simp_all add: env_logs_def env0_def)
  have c1: "\<forall>a \<in> set (tokenAddress ?t # log_addresses two_logs). \<not> isl (checksumAddress ?E a)"
    and c2: "\<forall>a \<in> set (tokenAddress ?n # log_addresses two_logs). \<not> isl (checksumAddress ?E a)"
    by (simp_all add: env_logs_def env0_def)
  have sel: "filter (either_match ''0xabc'') two_logs = [transfer_log 5 ''0xaa'' ''0xABC'' ''0xDEF'']"
    by code_simp
  have fa: "tokenFilterAddress ?t = ''0xabc''" "tokenFilterAddress ?n = ''0xabc''"
    by (simp_all add: params_either_def params0_def)
  have ids: "map (Some \<circ> log_id) [transfer_log 5 ''0xaa'' ''0xABC'' ''0xDEF''] = [Some (5, ''0xaa'', 0)]"
    by (simp add: log_id_def transfer_log_def)
  have run: "run_event ?E ?t 1 10
     = Inr [TokenTransfer
              \<lparr>tt_token_address = ''0x777'', tt_token_name = ''Token'', tt_token_symbol = ''TKN'',
               tt_token_decimals = 18, tt_from = ''0xABC'', tt_to = ''0xDEF'', tt_value = ''0'',
               tt_valueRaw = 1, tt_blockNumber = 5, tt_transactionHash = ''0xaa'',
               tt_logIndex = 0\<rparr>]"
    by code_simp
  show ?thesis
    using either_filter_emits_matching_logs[OF e1 f1 a1 q1 i1 c1]
      either_filter_emits_matching_logs[OF e2 f2 a2 q2 i2 c2] run
    unfolding fa sel ids by blast
qed

section \<open>Properties of the address resolver\<close>

lemma toLowerCase_upper [simp]: "toLowerCase_char (toUpperCase_char c) = toLowerCase_char c"
  by (auto simp: toLowerCase_char_def toUpperCase_char_def Let_def)

lemma toLowerCase_idem [simp]: "toLowerCase_char (toLowerCase_char c) = toLowerCase_char c"
  by (auto simp: toLowerCase_char_def Let_def)

lemma is_hex_upper: "is_hex_char c \<Longrightarrow> is_hex_char (toUpperCase_char c)"
  unfolding is_hex_char_def toUpperCase_char_def Let_def in_range_def
  by auto

lemma is_hex_lower: "is_hex_char c \<Longrightarrow> is_hex_char (toLowerCase_char c)"
  unfolding is_hex_char_def toLowerCase_char_def Let_def in_range_def
  by auto

lemma matches_with_0x:
  assumes "matches_hex_address x"
  shows "length (with_0x x) = 42 \<and> list_all is_hex_char (drop 2 (with_0x x))"
  using assms
  by (auto simp: matches_hex_address_def with_0x_def startsWith_def Let_def split: if_splits)

text \<open>Checksumming changes letter case only: the lower-case digits stay the same.\<close>

lemma lower_body:
  assumes "length a = 42"
  shows "drop 2 (toLowerCase (getChecksumAddress k a)) = drop 2 (toLowerCase a)"
proof -
  let ?chars = "drop 2 (toLowerCase a)"
  have len: "length ?chars = 40" using assms by (simp add: toLowerCase_def)
  have low: "\<And>i. i < 40 \<Longrightarrow> toLowerCase_char (?chars ! i) = ?chars ! i"
    using assms by (simp add: toLowerCase_def)
  have "drop 2 (toLowerCase (getChecksumAddress k a)) = map (\<lambda>i. ?chars ! i) [0..<40]"
    using low by (simp add: getChecksumAddress_def Let_def toLowerCase_def comp_def)
  also have "\<dots> = ?chars" using len by (metis map_nth)
  finally show ?thesis .
qed

lemma checksum_idem:
  assumes "length a = 42"
  shows "getChecksumAddress k (getChecksumAddress k a) = getChecksumAddress k a"
proof -
  have "drop 2 (toLowerCase (getChecksumAddress k a)) = drop 2 (toLowerCase a)"
    by (rule lower_body[OF assms])
  then show ?thesis
    unfolding getChecksumAddress_def[of k "getChecksumAddress k a"]
    unfolding getChecksumAddress_def[of k a] Let_def by simp
qed

lemma checksum_hex:
  assumes "length a = 42" "list_all is_hex_char (drop 2 a)"
  shows "list_all is_hex_char (drop 2 (getChecksumAddress k a))"
proof -
  have "\<And>i. i < 40 \<Longrightarrow> is_hex_char (drop 2 (toLowerCase a) ! i)"
    using assms by (simp add: toLowerCase_def list_all_length is_hex_lower)
  then show ?thesis
    by (auto simp: getChecksumAddress_def Let_def list_all_iff is_hex_upper)
qed

lemma checksum_matches:
  assumes "length a = 42" "list_all is_hex_char (drop 2 a)"
  shows "matches_hex_address (getChecksumAddress k a)
       \<and> with_0x (getChecksumAddress k a) = getChecksumAddress k a"
proof -
  have sw: "startsWith (getChecksumAddress k a) ''0x''"
    by (simp add: getChecksumAddress_def Let_def startsWith_def)
  have "length (drop 2 (getChecksumAddress k a)) = 40"
    by (simp add: getChecksumAddress_def Let_def)
  with sw checksum_hex[OF assms] show ?thesis
    by (simp add: matches_hex_address_def with_0x_def Let_def)
qed

lemma getAddress_checksummed:
  assumes "length a = 42" "list_all is_hex_char (drop 2 a)"
  shows "eip55_getAddress k (getChecksumAddress k a) = Inr (getChecksumAddress k a)"
  using checksum_matches[OF assms] checksum_idem[OF assms(1)]
  by (simp add: eip55_getAddress_def Let_def)

lemma isAddress_getAddress:
  assumes "eip55_isAddress k x"
  shows "eip55_getAddress k x = Inr (getChecksumAddress k (with_0x x)) \<and> matches_hex_address x"
  using assms
  by (auto simp: eip55_isAddress_def eip55_getAddress_def Let_def split: if_splits)

text \<open>
  The valid inputs are the hex addresses written in one letter case and the ones that
  are their own checksummed form.
\<close>

lemma isAddress_iff:
  "eip55_isAddress k x \<longleftrightarrow>
     matches_hex_address x \<and>
     (\<not> mixed_case (with_0x x) \<or> getChecksumAddress k (with_0x x) = with_0x x)"
  by (auto simp: eip55_isAddress_def eip55_getAddress_def Let_def)

text \<open>
  C7. For every valid hex address (in lower case, in upper case or already checksummed),
  \<open>resolveAddress\<close> returns its EIP-55 checksummed form and sends no name to the
  endpoint, and resolving the result again returns it unchanged, with no network call
  either: \<open>resolveAddress (resolveAddress x) = resolveAddress x\<close>. This holds whatever the
  hash function is.
\<close>

theorem resolveAddress_checksums_idempotent:
  assumes "eip55_isAddress keccak256 x"
  shows "resolveAddress (eip55 keccak256) provider x
           = (Inr (getChecksumAddress keccak256 (with_0x x)), [])
       \<and> resolveAddress (eip55 keccak256) provider (getChecksumAddress keccak256 (with_0x x))
           = (Inr (getChecksumAddress keccak256 (with_0x x)), [])"
proof -
  let ?c = "getChecksumAddress keccak256 (with_0x x)"
  from isAddress_getAddress[OF assms]
  have g: "eip55_getAddress keccak256 x = Inr ?c" and m: "matches_hex_address x" by simp_all
  from matches_with_0x[OF m]
  have len: "length (with_0x x) = 42" and hex: "list_all is_hex_char (drop 2 (with_0x x))"
    by simp_all
  have g2: "eip55_getAddress keccak256 ?c = Inr ?c"
    by (rule getAddress_checksummed[OF len hex])
  have "eip55_isAddress keccak256 ?c" using g2 by (simp add: eip55_isAddress_def)
  with assms g g2 show ?thesis
    by (simp add: resolveAddress_def eip55_def)
qed

theorem resolveAddress_checksums_idempotent_witness:
  "eip55_isAddress toy_hash ''0x52908400098527886e0f7030069857d2e4169ee7''
   \<and> resolveAddress (eip55 toy_hash) (\<lambda>n. Inr None) ''0x52908400098527886e0f7030069857d2e4169ee7''
       = (Inr ''0x52908400098527886e0F7030069857D2e4169eE7'', [])
   \<and> resolveAddress (eip55 toy_hash) (\<lambda>n. Inr None) ''0x52908400098527886e0F7030069857D2e4169eE7''
       = (Inr ''0x52908400098527886e0F7030069857D2e4169eE7'', [])"
proof -
  have h: "eip55_isAddress toy_hash ''0x52908400098527886e0f7030069857d2e4169ee7''"
    by code_simp
  have c: "getChecksumAddress toy_hash (with_0x ''0x52908400098527886e0f7030069857d2e4169ee7'')
             = ''0x52908400098527886e0F7030069857D2e4169eE7''"
    by code_simp
  show ?thesis
    using h resolveAddress_checksums_idempotent[OF h, of "\<lambda>n. Inr None"]
    unfolding c by simp
qed

lemma checksumAddress_utils_valid:
  "isAddress lib a \<Longrightarrow> checksumAddress_utils lib a = getAddress lib a"
  by (simp add: checksumAddress_utils_def)

text \<open>
  The two spellings never meet: a hex address has 40 or 42 characters, an ICAP one 34 or
  35. So the library accepts exactly the valid hex addresses and the ICAP strings with
  the right check digits.
\<close>

lemma hex_icap_disjoint: "matches_hex_address x \<Longrightarrow> \<not> matches_icap x"
  by (auto simp: matches_hex_address_def matches_icap_def Let_def split: if_splits)

lemma ethers_isAddress_iff:
  "ethers_isAddress k x \<longleftrightarrow>
     eip55_isAddress k x \<or> (matches_icap x \<and> take 2 (drop 2 x) = ibanChecksum x)"
  using hex_icap_disjoint[of x]
  by (auto simp: ethers_isAddress_def ethers_getAddress_def eip55_isAddress_def
        eip55_getAddress_def icap_getAddress_def Let_def split: if_splits)

text \<open>
  The ICAP string \<open>XE7338O073KYGTWWZN0F2WZ0R8PX5ZPPZS\<close>, step by step: it is no hex
  address, it has the ICAP shape, its check digits are right, and its base-36 digits spell
  the address \<open>00c5496aee77c1ba1f0854206a26dda82a81d6d8\<close>.
\<close>

lemma check_digits: "char_of (55::nat) = CHR ''7''" "char_of (51::nat) = CHR ''3''"
  by code_simp+

lemma icap_example_not_hex: "\<not> matches_hex_address ''XE7338O073KYGTWWZN0F2WZ0R8PX5ZPPZS''"
  by (simp add: matches_hex_address_def startsWith_def)

lemma icap_example_matches: "matches_icap ''XE7338O073KYGTWWZN0F2WZ0R8PX5ZPPZS''"
  by (simp add: matches_icap_def startsWith_def in_range_def)

lemma icap_example_checksum: "ibanChecksum ''XE7338O073KYGTWWZN0F2WZ0R8PX5ZPPZS'' = ''73''"
  by (simp add: ibanChecksum_def toUpperCase_def toUpperCase_char_def iban_step_def Let_def
        check_digits)

lemma icap_example_number:
  "fromBase36 0 ''38O073KYGTWWZN0F2WZ0R8PX5ZPPZS''
     = 4399642387892520450436325814291653801258637016"
  by (simp add: toLowerCase_char_def Let_def)

lemma icap_example_hex:
  "to_hex 4399642387892520450436325814291653801258637016
     = ''c5496aee77c1ba1f0854206a26dda82a81d6d8''"
  by (simp add: to_hex.simps)

text \<open>Whatever the hash and the endpoint, the resolver returns that address, checksummed.\<close>

lemma icap_example_accepted:
  "resolveAddress (ethers_lib k) provider ''XE7338O073KYGTWWZN0F2WZ0R8PX5ZPPZS''
     = (Inr (getChecksumAddress k ''0x00c5496aee77c1ba1f0854206a26dda82a81d6d8''), [])"
proof -
  have d: "drop 4 ''XE7338O073KYGTWWZN0F2WZ0R8PX5ZPPZS'' = ''38O073KYGTWWZN0F2WZ0R8PX5ZPPZS''"
    by simp
  have pad: "replicate (40 - length ''c5496aee77c1ba1f0854206a26dda82a81d6d8'') (CHR ''0'')
               @ ''c5496aee77c1ba1f0854206a26dda82a81d6d8''
             = ''00c5496aee77c1ba1f0854206a26dda82a81d6d8''"
    by (simp add: numeral_2_eq_2)
  have g: "ethers_getAddress k ''XE7338O073KYGTWWZN0F2WZ0R8PX5ZPPZS''
             = Inr (getChecksumAddress k ''0x00c5496aee77c1ba1f0854206a26dda82a81d6d8'')"
    unfolding ethers_getAddress_def icap_getAddress_def Let_def d icap_example_checksum
      icap_example_number icap_example_hex pad
    using icap_example_not_hex icap_example_matches by simp
  then show ?thesis
    by (simp add: resolveAddress_def ethers_lib_def ethers_isAddress_def)
qed

text \<open>
  C8. The claim as written, for every input that is neither a syntactically valid hex
  address nor has a \<open>.\<close> in it, fails: the validity test is the library's \<open>isAddress\<close>,
  which accepts the ICAP spelling of an address as well. The input
  \<open>XE7338O073KYGTWWZN0F2WZ0R8PX5ZPPZS\<close> is no hex address and has no \<open>.\<close>, and
  \<open>resolveAddress\<close> returns the address it spells instead of throwing.
\<close>

theorem resolveAddress_accepts_icap_input:
  "\<not> matches_hex_address ''XE7338O073KYGTWWZN0F2WZ0R8PX5ZPPZS''
   \<and> CHR ''.'' \<notin> set ''XE7338O073KYGTWWZN0F2WZ0R8PX5ZPPZS''
   \<and> resolveAddress (ethers_lib toy_hash) no_names ''XE7338O073KYGTWWZN0F2WZ0R8PX5ZPPZS''
       = (Inr (getChecksumAddress toy_hash ''0x00c5496aee77c1ba1f0854206a26dda82a81d6d8''), [])"
  using icap_example_not_hex icap_example_accepted[of toy_hash no_names] by simp

text \<open>
  C8, as amended. For every input that the library's \<open>isAddress\<close> rejects (it is neither
  a valid hex address nor a valid ICAP address) and that has no \<open>.\<close> in it,
  \<open>resolveAddress\<close> throws the invalid-address error and sends no name to the endpoint.
  This holds whatever the library's test is.
\<close>

theorem resolveAddress_invalid_input_fails_without_lookup:
  assumes "\<not> isAddress lib addressOrEns" and "CHR ''.'' \<notin> set addressOrEns"
  shows "resolveAddress lib provider addressOrEns
           = (Inl (Error (''Invalid address or ENS name: '' @ addressOrEns)), [])"
  using assms by (simp add: resolveAddress_def)

theorem resolveAddress_invalid_input_fails_without_lookup_witness:
  "\<not> isAddress (ethers_lib toy_hash) ''0xZZZ'' \<and> CHR ''.'' \<notin> set ''0xZZZ''
   \<and> resolveAddress (ethers_lib toy_hash)
         (\<lambda>n. Inr (Some ''0x52908400098527886e0F7030069857D2e4169eE7'')) ''0xZZZ''
       = (Inl (Error ''Invalid address or ENS name: 0xZZZ''), [])"
proof -
  have h1: "\<not> isAddress (ethers_lib toy_hash) ''0xZZZ''"
    by (simp add: ethers_lib_def ethers_isAddress_def ethers_getAddress_def
          matches_hex_address_def matches_icap_def startsWith_def)
  have h2: "CHR ''.'' \<notin> set ''0xZZZ''" by simp
  show ?thesis
    using h1 h2 resolveAddress_invalid_input_fails_without_lookup[OF h1 h2]
    by simp
qed

end
